theory Spec2Isabelle
  imports Main
begin

section \<open>pg\_timeout: the background worker of \<^verbatim>\<open>pg_timeout.c\<close>\<close>

text \<open>
  The worker \<^verbatim>\<open>pg_timeout_main\<close> talks to its host (the PostgreSQL server) through calls:
  it connects, waits on its latch, runs two SQL statements through SPI and writes log lines.
  The embedding keeps the worker's own control flow and data, and makes the host explicit:
  \<^item> every call to the host whose order matters is an \<open>event\<close> of a trace, in program order;
  \<^item> everything the host gives back (what woke the latch, which signals were delivered, what
    the configuration file holds, what SPI returns) is an input of the loop iteration that
    reads it;
  \<^item> the ways the process ends (\<^verbatim>\<open>proc_exit\<close>, \<^verbatim>\<open>elog(FATAL)\<close>) are outcomes.
\<close>

subsection \<open>Formatting of \<^verbatim>\<open>%d\<close>\<close>

definition digit_char :: "nat \<Rightarrow> char" where
  "digit_char d = ''0123456789'' ! d"

function show_nat :: "nat \<Rightarrow> string" where
  "show_nat n = (if n < 10 then [digit_char n] else show_nat (n div 10) @ [digit_char (n mod 10)])"
  by pat_completeness auto
termination
  by (relation "measure (\<lambda>n. n)") auto

declare show_nat.simps [simp del]

text \<open>The C type is \<^verbatim>\<open>int\<close>; no arithmetic is done on the value, it is only printed.\<close>

definition show_int :: "int \<Rightarrow> string" where
  "show_int i = (if i < 0 then CHR ''-'' # show_nat (nat (- i)) else show_nat (nat i))"

subsection \<open>Constants of the source\<close>

definition LOG_MESSAGE :: string where
  "LOG_MESSAGE = ''%s: idle session PID=%d user=%s database=%s application=%s hostname=%s''"

definition null_value :: string where
  "null_value = ''NULL''"

text \<open>\<^verbatim>\<open>MyBgworkerEntry->bgw_name\<close>, as \<^verbatim>\<open>_PG_init\<close> registers it.\<close>

definition bgw_name :: string where
  "bgw_name = ''pg_timeout_worker''"

text \<open>The host's \<^verbatim>\<open>executor/spi.h\<close> defines \<^verbatim>\<open>SPI_OK_SELECT\<close> as 5.\<close>

definition SPI_OK_SELECT :: int where
  "SPI_OK_SELECT = 5"

subsection \<open>The two statements (lines 121 to 138)\<close>

text \<open>
  \<^verbatim>\<open>appendStringInfo\<close> of the concatenated literals with the timeout printed by \<^verbatim>\<open>%d\<close>.
  The quote character that ends a piece is written \<open>CHR 0x27\<close>.
\<close>

definition build_buf_select :: "int \<Rightarrow> string" where
  "build_buf_select t =
     ''SELECT pid, usename, datname, application_name, client_hostname '' @
     ''FROM pg_stat_activity '' @
     ''WHERE pid <> pg_backend_pid() '' @
     ''AND state = 'idle' '' @
     ''AND state_change < current_timestamp - INTERVAL '' @ [CHR 0x27] @ show_int t @
     [CHR 0x27] @ '' SECOND''"

definition build_buf_kill :: "int \<Rightarrow> string" where
  "build_buf_kill t =
     ''SELECT pg_terminate_backend(pid) '' @
     ''FROM pg_stat_activity '' @
     ''WHERE pid <> pg_backend_pid() '' @
     ''AND state = 'idle' '' @
     ''AND state_change < current_timestamp - INTERVAL '' @ [CHR 0x27] @ show_int t @
     [CHR 0x27] @ '' SECOND''"

subsection \<open>Data\<close>

text \<open>
  One tuple of \<^verbatim>\<open>SPI_tuptable\<close>: column 1 read with \<^verbatim>\<open>SPI_getbinval\<close> (\<open>None\<close> when
  \<^verbatim>\<open>isnull\<close> is set), columns 2 to 5 read with \<^verbatim>\<open>SPI_getvalue\<close> (\<open>None\<close> for the
  \<^verbatim>\<open>NULL\<close> pointer).
\<close>

record row =
  pid :: "int option"
  usename :: "string option"
  datname :: "string option"
  application_name :: "string option"
  client_hostname :: "string option"

text \<open>
  What \<^verbatim>\<open>SPI_execute\<close> gives back: its return code and the tuples. \<^verbatim>\<open>SPI_processed\<close> is
  the number of tuples; \<^verbatim>\<open>pg_stat_activity\<close> has at most one row per backend slot, so the
  count fits the \<^verbatim>\<open>int nr\<close> it is stored in.
\<close>

record spi_result =
  spi_ret :: int
  spi_rows :: "row list"

text \<open>The static variables of the file, with the two buffers of \<^verbatim>\<open>pg_timeout_main\<close>.\<close>

record worker =
  got_sighup :: bool
  got_sigterm :: bool
  pg_timeout_idle_session_timeout :: int
  pg_timeout_naptime :: int
  buf_select :: string
  buf_kill :: string

text \<open>
  What the host does during one iteration of the main loop. Signals are delivered in one
  of two windows: while the worker is blocked in \<^verbatim>\<open>WaitLatch\<close> (up to the test of
  \<^verbatim>\<open>got_sighup\<close> on line 177), or during the rest of the body (up to the next test of the
  loop condition). The handlers only set the flags. \<^verbatim>\<open>CHECK_FOR_INTERRUPTS\<close> belongs to the
  host and cannot read the file's static flags; it has no effect here.
\<close>

record wake =
  postmaster_death :: bool
  sigterm_in_wait :: bool
  sighup_in_wait :: bool
  conf_idle_session_timeout :: int
  conf_naptime :: int
  select_result :: spi_result
  kill_result :: spi_result
  sigterm_in_body :: bool
  sighup_in_body :: bool

text \<open>What the worker starts with: the two settings, and signals delivered before the loop.\<close>

record startup =
  init_idle_session_timeout :: int
  init_naptime :: int
  early_sigterm :: bool
  early_sighup :: bool

datatype level = LOG | WARNING | FATAL

text \<open>An argument of \<^verbatim>\<open>elog\<close>: an \<^verbatim>\<open>int\<close>, or a \<^verbatim>\<open>char *\<close> that may be the \<^verbatim>\<open>NULL\<close> pointer.\<close>

datatype arg = AInt int | AStr "string option"

datatype event =
    InitializeConnection string "string option"
  | Elog level string "arg list"
  | WaitLatch int
  | ResetLatch
  | ProcessConfigFile
  | StartTransactionCommand
  | SPI_connect
  | PushActiveSnapshot
  | ReportActivity "string option"
  | SPI_execute string
  | SPI_finish
  | PopActiveSnapshot
  | CommitTransactionCommand
  | ReportStat
  | ProcExit int

text \<open>
  How a run ends: \<^verbatim>\<open>proc_exit\<close> with a status, \<^verbatim>\<open>elog(FATAL)\<close> (the host ends the process),
  or the worker is blocked in \<^verbatim>\<open>WaitLatch\<close> because the host has nothing more to deliver.
\<close>

datatype outcome = Exited int | Aborted | Blocked

subsection \<open>The row loop (lines 214 to 255)\<close>

definition log_row :: "row \<Rightarrow> event" where
  "log_row r =
     (case pid r of
        Some pid_val \<Rightarrow>
          (let usename_val = usename r;
               datname_val = datname r;
               application_name_val = application_name r;
               client_hostname_val = client_hostname r;
               usename_val = (if usename_val = None then Some null_value else usename_val);
               datname_val = (if datname_val = None then Some null_value else datname_val);
               client_hostname_val =
                 (if application_name_val = None then Some null_value else client_hostname_val);
               client_hostname_val =
                 (if client_hostname_val = None then Some null_value else client_hostname_val)
           in Elog LOG LOG_MESSAGE
                [AStr (Some bgw_name), AInt pid_val, AStr usename_val, AStr datname_val,
                 AStr application_name_val, AStr client_hostname_val])
      | None \<Rightarrow> Elog WARNING ''%s: pid is NULL'' [AStr (Some bgw_name)])"

fun process_rows :: "row list \<Rightarrow> event list" where
  "process_rows [] = []"
| "process_rows (r # rs) = log_row r # process_rows rs"

subsection \<open>One iteration of the main loop (lines 145 to 276)\<close>

text \<open>
  The two signal handlers (lines 60 to 85): each sets its flag; a flag that is set stays set
  until the loop clears it.
\<close>

definition deliver :: "bool \<Rightarrow> bool \<Rightarrow> worker \<Rightarrow> worker" where
  "deliver term hup w =
     w\<lparr>got_sigterm := got_sigterm w \<or> term, got_sighup := got_sighup w \<or> hup\<rparr>"

text \<open>
  Lines 177 to 181: the flag is cleared and \<^verbatim>\<open>ProcessConfigFile\<close> assigns the two settings
  from the configuration. The buffers are not touched.
\<close>

definition reload :: "wake \<Rightarrow> worker \<Rightarrow> worker" where
  "reload c w =
     w\<lparr>got_sighup := False,
       pg_timeout_idle_session_timeout := conf_idle_session_timeout c,
       pg_timeout_naptime := conf_naptime c\<rparr>"

text \<open>Lines 272 to 276.\<close>

definition finish_transaction :: "event list" where
  "finish_transaction =
     [SPI_finish, PopActiveSnapshot, CommitTransactionCommand, ReportStat, ReportActivity None]"

text \<open>
  Lines 199 to 276: the transaction, the select statement, the row loop, the terminate
  statement when \<^verbatim>\<open>nr > 0\<close>, and the commit. \<^verbatim>\<open>elog(FATAL)\<close> does not return. The worker
  that comes out carries the signals delivered meanwhile.
\<close>

definition run_queries :: "worker \<Rightarrow> wake \<Rightarrow> event list \<times> (outcome + worker)" where
  "run_queries w c =
     (let begin_events =
            [StartTransactionCommand, SPI_connect, PushActiveSnapshot,
             ReportActivity (Some (buf_select w)), SPI_execute (buf_select w)];
          ret = spi_ret (select_result c)
      in if ret \<noteq> SPI_OK_SELECT then
           (begin_events @
              [Elog FATAL ''cannot select from pg_stat_activity: error code %d'' [AInt ret]],
            Inl Aborted)
         else
           let rows = spi_rows (select_result c);
               nr = int (length rows);
               row_events = process_rows rows
           in if nr > 0 then
                let ret = spi_ret (kill_result c)
                in if ret \<noteq> SPI_OK_SELECT then
                     (begin_events @ row_events @
                        [SPI_execute (buf_kill w),
                         Elog FATAL ''cannot select pg_terminate_backend: error code %d''
                           [AInt ret]],
                      Inl Aborted)
                   else
                     (begin_events @ row_events @
                        [SPI_execute (buf_kill w),
                         Elog LOG ''%s: idle session(s) since %d seconds terminated''
                           [AStr (Some bgw_name), AInt (pg_timeout_idle_session_timeout w)]] @
                        finish_transaction,
                      Inr (deliver (sigterm_in_body c) (sighup_in_body c) w))
              else
                (begin_events @ row_events @ finish_transaction,
                 Inr (deliver (sigterm_in_body c) (sighup_in_body c) w)))"

text \<open>
  Lines 157 to 181, then the statements: the wait, the emergency exit when the postmaster
  has died, the reload when \<^verbatim>\<open>got_sighup\<close> is set. \<^verbatim>\<open>got_sigterm\<close> is not read here.
\<close>

definition loop_body :: "worker \<Rightarrow> wake \<Rightarrow> event list \<times> (outcome + worker)" where
  "loop_body w c =
     (let wait_events = [WaitLatch (pg_timeout_naptime w * 1000), ResetLatch];
          w = deliver (sigterm_in_wait c) (sighup_in_wait c) w
      in if postmaster_death c then (wait_events @ [ProcExit 1], Inl (Exited 1))
         else if got_sighup w then
           (let (evs, res) = run_queries (reload c w) c
            in (wait_events @ [ProcessConfigFile] @ evs, res))
         else
           (let (evs, res) = run_queries w c
            in (wait_events @ evs, res)))"

subsection \<open>The main loop and the worker (lines 87 to 280)\<close>

text \<open>
  The loop runs as long as the host keeps waking the worker: one \<open>wake\<close> per iteration.
  When the host has nothing more to deliver the worker stays in \<^verbatim>\<open>WaitLatch\<close>.
\<close>

fun main_loop :: "worker \<Rightarrow> wake list \<Rightarrow> event list \<times> outcome" where
  "main_loop w [] =
     (if got_sigterm w then ([ProcExit 1], Exited 1)
      else ([WaitLatch (pg_timeout_naptime w * 1000)], Blocked))"
| "main_loop w (c # cs) =
     (if got_sigterm w then ([ProcExit 1], Exited 1)
      else
        (case loop_body w c of
           (evs, Inl out) \<Rightarrow> (evs, out)
         | (evs, Inr w') \<Rightarrow> (let (evs', out) = main_loop w' cs in (evs @ evs', out))))"

text \<open>
  Lines 121 to 138 run once, before the loop: both buffers are filled from the setting as
  it is when the worker starts.
\<close>

definition start_worker :: "startup \<Rightarrow> worker" where
  "start_worker s =
     \<lparr>got_sighup = early_sighup s,
      got_sigterm = early_sigterm s,
      pg_timeout_idle_session_timeout = init_idle_session_timeout s,
      pg_timeout_naptime = init_naptime s,
      buf_select = build_buf_select (init_idle_session_timeout s),
      buf_kill = build_buf_kill (init_idle_session_timeout s)\<rparr>"

definition pg_timeout_main :: "startup \<Rightarrow> wake list \<Rightarrow> event list \<times> outcome" where
  "pg_timeout_main s cs =
     (let (evs, out) = main_loop (start_worker s) cs
      in ([InitializeConnection ''postgres'' None,
           Elog LOG ''%s initialized'' [AStr (Some bgw_name)]] @ evs,
          out))"

subsection \<open>Reading a trace\<close>

text \<open>The statements passed to \<^verbatim>\<open>SPI_execute\<close>, in the order of execution.\<close>

fun executed :: "event list \<Rightarrow> string list" where
  "executed [] = []"
| "executed (SPI_execute q # es) = q # executed es"
| "executed (_ # es) = executed es"

fun elog_level :: "event \<Rightarrow> level option" where
  "elog_level (Elog l f as) = Some l"
| "elog_level _ = None"

fun elog_format :: "event \<Rightarrow> string option" where
  "elog_format (Elog l f as) = Some f"
| "elog_format _ = None"

text \<open>The lines written by the \<^verbatim>\<open>elog\<close> of line 264.\<close>

definition summary_lines :: "event list \<Rightarrow> event list" where
  "summary_lines evs =
     filter (\<lambda>e. elog_format e = Some ''%s: idle session(s) since %d seconds terminated'') evs"

text \<open>The database and role of every \<^verbatim>\<open>BackgroundWorkerInitializeConnection\<close>.\<close>

fun connections :: "event list \<Rightarrow> (string \<times> string option) list" where
  "connections [] = []"
| "connections (InitializeConnection db role # es) = (db, role) # connections es"
| "connections (_ # es) = connections es"

text \<open>
  The worker as the statements of an iteration find it: after the signals of the wait
  window, and after the reload when \<^verbatim>\<open>got_sighup\<close> was set (lines 157 to 181).
\<close>

definition woken :: "worker \<Rightarrow> wake \<Rightarrow> worker" where
  "woken w c =
     (let w' = deliver (sigterm_in_wait c) (sighup_in_wait c) w
      in if got_sighup w' then reload c w' else w')"

subsection \<open>Sample inputs\<close>

definition example_startup :: startup where
  "example_startup =
     \<lparr>init_idle_session_timeout = 60, init_naptime = 10,
      early_sigterm = False, early_sighup = False\<rparr>"

definition example_row :: row where
  "example_row =
     \<lparr>pid = Some 4242, usename = Some ''alice'', datname = Some ''app'',
      application_name = None, client_hostname = Some ''client.example''\<rparr>"

definition null_pid_row :: row where
  "null_pid_row =
     \<lparr>pid = None, usename = Some ''bob'', datname = None,
      application_name = Some ''psql'', client_hostname = None\<rparr>"

text \<open>A quiet wake-up by the timer: one idle session found, both statements succeed.\<close>

definition timer_wake :: wake where
  "timer_wake =
     \<lparr>postmaster_death = False, sigterm_in_wait = False, sighup_in_wait = False,
      conf_idle_session_timeout = 60, conf_naptime = 10,
      select_result = \<lparr>spi_ret = 5, spi_rows = [example_row]\<rparr>,
      kill_result = \<lparr>spi_ret = 5, spi_rows = []\<rparr>,
      sigterm_in_body = False, sighup_in_body = False\<rparr>"

text \<open>The same, woken by SIGHUP after the configured timeout was changed to 120.\<close>

definition reload_wake :: wake where
  "reload_wake = timer_wake\<lparr>sighup_in_wait := True, conf_idle_session_timeout := 120\<rparr>"

text \<open>The same, woken by SIGTERM.\<close>

definition sigterm_wake :: wake where
  "sigterm_wake = timer_wake\<lparr>sigterm_in_wait := True\<rparr>"

text \<open>The select statement returns no row.\<close>

definition no_rows_wake :: wake where
  "no_rows_wake = timer_wake\<lparr>select_result := \<lparr>spi_ret = 5, spi_rows = []\<rparr>\<rparr>"

text \<open>The select statement returns three rows, the second with a null pid.\<close>

definition null_pid_wake :: wake where
  "null_pid_wake =
     timer_wake\<lparr>select_result :=
       \<lparr>spi_ret = 5, spi_rows = [example_row, null_pid_row, example_row]\<rparr>\<rparr>"

text \<open>\<^verbatim>\<open>SPI_execute\<close> fails (a negative code) on the first or on the second statement.\<close>

definition select_failed_wake :: wake where
  "select_failed_wake = timer_wake\<lparr>select_result := \<lparr>spi_ret = - 1, spi_rows = []\<rparr>\<rparr>"

definition kill_failed_wake :: wake where
  "kill_failed_wake = timer_wake\<lparr>kill_result := \<lparr>spi_ret = - 1, spi_rows = []\<rparr>\<rparr>"

section \<open>Properties\<close>

subsection \<open>The printed number\<close>

text \<open>
  The printed text determines the number: two timeouts that print alike are equal. So a
  statement text carries exactly one timeout value.
\<close>

lemma digit_char_inj:
  assumes "d < 10" and "e < 10" and "digit_char d = digit_char e"
  shows "d = e"
proof -
  have "d \<in> {0, 1, 2, 3, 4, 5, 6, 7, 8, 9}" using assms(1) by auto
  moreover have "e \<in> {0, 1, 2, 3, 4, 5, 6, 7, 8, 9}" using assms(2) by auto
  ultimately show ?thesis using assms(3) by (auto simp: digit_char_def)
qed

lemma digit_char_not_minus: "d < 10 \<Longrightarrow> digit_char d \<noteq> CHR ''-''"
proof -
  assume "d < 10"
  then have "d \<in> {0, 1, 2, 3, 4, 5, 6, 7, 8, 9}" by auto
  then show ?thesis by (auto simp: digit_char_def)
qed

lemma show_nat_not_Nil: "show_nat n \<noteq> []" "[] \<noteq> show_nat n"
  by (subst show_nat.simps, simp)+

lemma hd_show_nat: "hd (show_nat n) \<noteq> CHR ''-''"
proof (induction n rule: show_nat.induct)
  case (1 n)
  show ?case
  proof (cases "n < 10")
    case True
    then show ?thesis by (simp add: show_nat.simps [of n] digit_char_not_minus)
  next
    case False
    with 1 show ?thesis by (simp add: show_nat.simps [of n] show_nat_not_Nil)
  qed
qed

lemma show_nat_inj: "show_nat n = show_nat m \<Longrightarrow> n = m"
proof (induction n arbitrary: m rule: show_nat.induct)
  case (1 n)
  show ?case
  proof (cases "n < 10")
    case True
    note n = this
    show ?thesis
    proof (cases "m < 10")
      case True
      with n "1.prems" show ?thesis
        by (simp add: show_nat.simps [of n] show_nat.simps [of m] digit_char_inj)
    next
      case False
      with n "1.prems" show ?thesis
        by (simp add: show_nat.simps [of n] show_nat.simps [of m] show_nat_not_Nil)
    qed
  next
    case False
    note n = this
    show ?thesis
    proof (cases "m < 10")
      case True
      with n "1.prems" show ?thesis
        by (simp add: show_nat.simps [of n] show_nat.simps [of m] show_nat_not_Nil)
    next
      case False
      with n "1.prems" have eq: "show_nat (n div 10) = show_nat (m div 10)"
        "digit_char (n mod 10) = digit_char (m mod 10)"
        by (simp_all add: show_nat.simps [of n] show_nat.simps [of m])
      from "1.IH" [OF n eq(1)] have "n div 10 = m div 10" .
      moreover from eq(2) have "n mod 10 = m mod 10" by (simp add: digit_char_inj)
      ultimately show ?thesis by (metis div_mult_mod_eq)
    qed
  qed
qed

lemma show_int_inj: "show_int a = show_int b \<Longrightarrow> a = b"
proof -
  assume eq: "show_int a = show_int b"
  have neg: "hd (show_int i) = CHR ''-'' \<longleftrightarrow> i < 0" for i
    using hd_show_nat [of "nat i"] by (simp add: show_int_def)
  from eq have "a < 0 \<longleftrightarrow> b < 0" using neg by metis
  then show ?thesis
  proof (cases "a < 0")
    case True
    with \<open>a < 0 \<longleftrightarrow> b < 0\<close> eq have "show_nat (nat (- a)) = show_nat (nat (- b))"
      by (simp add: show_int_def)
    then have "nat (- a) = nat (- b)" by (rule show_nat_inj)
    with True \<open>a < 0 \<longleftrightarrow> b < 0\<close> show ?thesis by simp
  next
    case False
    with \<open>a < 0 \<longleftrightarrow> b < 0\<close> eq have "show_nat (nat a) = show_nat (nat b)"
      by (simp add: show_int_def)
    then have "nat a = nat b" by (rule show_nat_inj)
    with False \<open>a < 0 \<longleftrightarrow> b < 0\<close> show ?thesis by simp
  qed
qed

subsection \<open>The row loop\<close>

lemma log_row_null_pid:
  "pid r = None \<Longrightarrow> log_row r = Elog WARNING ''%s: pid is NULL'' [AStr (Some bgw_name)]"
  by (simp add: log_row_def)

lemma process_rows_append: "process_rows (xs @ ys) = process_rows xs @ process_rows ys"
  by (induction xs) simp_all

lemma executed_append: "executed (xs @ ys) = executed xs @ executed ys"
  by (induction xs rule: executed.induct) simp_all

lemma connections_append: "connections (xs @ ys) = connections xs @ connections ys"
  by (induction xs rule: connections.induct) simp_all

lemma executed_process_rows [simp]: "executed (process_rows rs) = []"
  by (induction rs) (simp_all add: log_row_def Let_def split: option.splits)

lemma connections_process_rows [simp]: "connections (process_rows rs) = []"
  by (induction rs) (simp_all add: log_row_def Let_def split: option.splits)

lemma count_process_rows [simp]: "count_list (process_rows rs) StartTransactionCommand = 0"
  by (induction rs) (simp_all add: log_row_def Let_def split: option.splits)

lemma summary_process_rows [simp]: "summary_lines (process_rows rs) = []"
  by (induction rs)
     (simp_all add: summary_lines_def log_row_def LOG_MESSAGE_def Let_def split: option.splits)

lemma fatal_process_rows [simp]:
  "filter (\<lambda>e. elog_level e = Some FATAL) (process_rows rs) = []"
  by (induction rs) (simp_all add: log_row_def Let_def split: option.splits)

lemma commit_process_rows [simp]: "CommitTransactionCommand \<notin> set (process_rows rs)"
  by (induction rs) (simp_all add: log_row_def Let_def split: option.splits)

lemma warnings_process_rows:
  "length (filter (\<lambda>e. elog_level e = Some WARNING) (process_rows rs)) =
   length (filter (\<lambda>r. pid r = None) rs)"
  by (induction rs) (simp_all add: log_row_def Let_def split: option.splits)

subsection \<open>The four ways through the statements of an iteration\<close>

lemma run_queries_cases:
  obtains (select_failed) "spi_ret (select_result c) \<noteq> SPI_OK_SELECT"
  | (no_rows) "spi_ret (select_result c) = SPI_OK_SELECT" "spi_rows (select_result c) = []"
  | (kill_failed) "spi_ret (select_result c) = SPI_OK_SELECT"
      "spi_rows (select_result c) \<noteq> []" "spi_ret (kill_result c) \<noteq> SPI_OK_SELECT"
  | (killed) "spi_ret (select_result c) = SPI_OK_SELECT"
      "spi_rows (select_result c) \<noteq> []" "spi_ret (kill_result c) = SPI_OK_SELECT"
  by blast

lemma run_queries_select_failed:
  assumes "spi_ret (select_result c) \<noteq> SPI_OK_SELECT"
  shows "run_queries w c =
     ([StartTransactionCommand, SPI_connect, PushActiveSnapshot,
       ReportActivity (Some (buf_select w)), SPI_execute (buf_select w),
       Elog FATAL ''cannot select from pg_stat_activity: error code %d''
         [AInt (spi_ret (select_result c))]],
      Inl Aborted)"
  using assms by (simp add: run_queries_def Let_def)

lemma run_queries_no_rows:
  assumes "spi_ret (select_result c) = SPI_OK_SELECT"
    and "spi_rows (select_result c) = []"
  shows "run_queries w c =
     ([StartTransactionCommand, SPI_connect, PushActiveSnapshot,
       ReportActivity (Some (buf_select w)), SPI_execute (buf_select w)] @
      finish_transaction,
      Inr (deliver (sigterm_in_body c) (sighup_in_body c) w))"
  using assms by (simp add: run_queries_def Let_def)

lemma run_queries_kill_failed:
  assumes "spi_ret (select_result c) = SPI_OK_SELECT"
    and "spi_rows (select_result c) \<noteq> []"
    and "spi_ret (kill_result c) \<noteq> SPI_OK_SELECT"
  shows "run_queries w c =
     ([StartTransactionCommand, SPI_connect, PushActiveSnapshot,
       ReportActivity (Some (buf_select w)), SPI_execute (buf_select w)] @
      process_rows (spi_rows (select_result c)) @
      [SPI_execute (buf_kill w),
       Elog FATAL ''cannot select pg_terminate_backend: error code %d''
         [AInt (spi_ret (kill_result c))]],
      Inl Aborted)"
  using assms by (simp add: run_queries_def Let_def)

lemma run_queries_killed:
  assumes "spi_ret (select_result c) = SPI_OK_SELECT"
    and "spi_rows (select_result c) \<noteq> []"
    and "spi_ret (kill_result c) = SPI_OK_SELECT"
  shows "run_queries w c =
     ([StartTransactionCommand, SPI_connect, PushActiveSnapshot,
       ReportActivity (Some (buf_select w)), SPI_execute (buf_select w)] @
      process_rows (spi_rows (select_result c)) @
      [SPI_execute (buf_kill w),
       Elog LOG ''%s: idle session(s) since %d seconds terminated''
         [AStr (Some bgw_name), AInt (pg_timeout_idle_session_timeout w)]] @
      finish_transaction,
      Inr (deliver (sigterm_in_body c) (sighup_in_body c) w))"
  using assms by (simp add: run_queries_def Let_def)

lemmas run_queries_paths =
  run_queries_select_failed run_queries_no_rows run_queries_kill_failed run_queries_killed

lemma executed_run_queries:
  "executed (fst (run_queries w c)) =
     (if spi_ret (select_result c) = SPI_OK_SELECT \<and> spi_rows (select_result c) \<noteq> []
      then [buf_select w, buf_kill w] else [buf_select w])"
  by (cases c rule: run_queries_cases)
     (simp_all add: run_queries_paths executed_append finish_transaction_def)

lemma connections_run_queries: "connections (fst (run_queries w c)) = []"
  by (cases c rule: run_queries_cases)
     (simp_all add: run_queries_paths connections_append finish_transaction_def)


lemma run_queries_continue:
  "snd (run_queries w c) = Inr w' \<Longrightarrow> w' = deliver (sigterm_in_body c) (sighup_in_body c) w"
  by (cases c rule: run_queries_cases) (simp_all add: run_queries_paths)


subsection \<open>One iteration, and the loop\<close>

lemma got_sigterm_deliver [simp]: "got_sigterm (deliver t h w) = (got_sigterm w \<or> t)"
  by (simp add: deliver_def)

lemma buf_deliver [simp]:
  "buf_select (deliver t h w) = buf_select w" "buf_kill (deliver t h w) = buf_kill w"
  by (simp_all add: deliver_def)

lemma got_sigterm_woken [simp]: "got_sigterm (woken w c) = (got_sigterm w \<or> sigterm_in_wait c)"
  by (simp add: woken_def deliver_def reload_def Let_def)

lemma buf_woken [simp]:
  "buf_select (woken w c) = buf_select w" "buf_kill (woken w c) = buf_kill w"
  by (simp_all add: woken_def deliver_def reload_def Let_def)

lemma loop_body_dead:
  assumes "postmaster_death c"
  shows "loop_body w c =
     ([WaitLatch (pg_timeout_naptime w * 1000), ResetLatch, ProcExit 1], Inl (Exited 1))"
  using assms by (simp add: loop_body_def Let_def)

lemma loop_body_alive:
  assumes "\<not> postmaster_death c"
  shows "loop_body w c =
     ([WaitLatch (pg_timeout_naptime w * 1000), ResetLatch] @
      (if got_sighup w \<or> sighup_in_wait c then [ProcessConfigFile] else []) @
      fst (run_queries (woken w c) c),
      snd (run_queries (woken w c) c))"
  using assms
  by (simp add: loop_body_def woken_def deliver_def Let_def split: prod.splits)

lemma executed_loop_body:
  "executed (fst (loop_body w c)) =
     (if postmaster_death c then []
      else if spi_ret (select_result c) = SPI_OK_SELECT \<and> spi_rows (select_result c) \<noteq> []
      then [buf_select w, buf_kill w] else [buf_select w])"
  by (simp add: loop_body_alive loop_body_dead executed_append executed_run_queries)

lemma loop_body_continue:
  assumes "snd (loop_body w c) = Inr w'"
  shows "buf_select w' = buf_select w \<and> buf_kill w' = buf_kill w \<and>
         got_sigterm w' = (got_sigterm w \<or> sigterm_in_wait c \<or> sigterm_in_body c)"
proof (cases "postmaster_death c")
  case True
  with assms show ?thesis by (simp add: loop_body_dead)
next
  case False
  with assms have "snd (run_queries (woken w c) c) = Inr w'"
    by (simp add: loop_body_alive)
  then have "w' = deliver (sigterm_in_body c) (sighup_in_body c) (woken w c)"
    by (rule run_queries_continue)
  then show ?thesis by simp
qed

lemma main_loop_sigterm: "got_sigterm w \<Longrightarrow> main_loop w cs = ([ProcExit 1], Exited 1)"
  by (cases cs) simp_all

lemma main_loop_step:
  assumes "\<not> got_sigterm w"
  shows "main_loop w (c # cs) =
     (case snd (loop_body w c) of
        Inl out \<Rightarrow> (fst (loop_body w c), out)
      | Inr w' \<Rightarrow> (fst (loop_body w c) @ fst (main_loop w' cs), snd (main_loop w' cs)))"
  using assms by (simp split: prod.splits sum.splits)

lemma connections_loop_body: "connections (fst (loop_body w c)) = []"
  by (cases "postmaster_death c")
     (simp_all add: loop_body_alive loop_body_dead connections_append connections_run_queries)

lemma connections_main_loop: "connections (fst (main_loop w cs)) = []"
proof (induction cs arbitrary: w)
  case Nil
  show ?case by simp
next
  case (Cons c cs)
  show ?case
  proof (cases "got_sigterm w")
    case True
    then show ?thesis by (simp add: main_loop_sigterm)
  next
    case False
    then show ?thesis
      by (simp add: main_loop_step connections_append connections_loop_body Cons.IH
          del: main_loop.simps split: sum.splits)
  qed
qed

lemma pg_timeout_main_unfold:
  "pg_timeout_main s cs =
     ([InitializeConnection ''postgres'' None,
       Elog LOG ''%s initialized'' [AStr (Some bgw_name)]] @ fst (main_loop (start_worker s) cs),
      snd (main_loop (start_worker s) cs))"
  by (simp add: pg_timeout_main_def case_prod_beta)

text \<open>
  Every run connects exactly once, before anything else, to the database \<open>postgres\<close>
  with the \<^verbatim>\<open>NULL\<close> role (lines 105 to 110).
\<close>

lemma connects_once_to_postgres:
  "connections (fst (pg_timeout_main s cs)) = [(''postgres'', None)] \<and>
   hd (fst (pg_timeout_main s cs)) = InitializeConnection ''postgres'' None"
  by (simp add: pg_timeout_main_unfold connections_main_loop)

text \<open>
  The statements of a run, iteration by iteration: each iteration executes the first
  buffer, alone or followed by the second; the buffers are those the loop started with.
\<close>

lemma main_loop_blocks:
  "\<exists>blocks. executed (fst (main_loop w cs)) = concat blocks \<and>
     (\<forall>b \<in> set blocks. b = [buf_select w] \<or> b = [buf_select w, buf_kill w])"
proof (induction cs arbitrary: w)
  case Nil
  have "executed (fst (main_loop w [])) = concat []" by simp
  then show ?case by (metis empty_iff empty_set)
next
  case (Cons c cs)
  show ?case
  proof (cases "got_sigterm w")
    case True
    then have "executed (fst (main_loop w (c # cs))) = concat []"
      by (simp add: main_loop_sigterm)
    then show ?thesis by (metis empty_iff empty_set)
  next
    case False
    note running = this
    let ?e = "executed (fst (loop_body w c))"
    have e: "?e = [] \<or> ?e = [buf_select w] \<or> ?e = [buf_select w, buf_kill w]"
      by (simp add: executed_loop_body)
    show ?thesis
    proof (cases "snd (loop_body w c)")
      case (Inl out)
      with running have "executed (fst (main_loop w (c # cs))) = ?e"
        by (simp add: main_loop_step del: main_loop.simps)
      then have "executed (fst (main_loop w (c # cs))) = concat [?e]" by simp
      moreover have "\<forall>b \<in> set (if ?e = [] then [] else [?e]).
          b = [buf_select w] \<or> b = [buf_select w, buf_kill w]"
        using e by auto
      moreover have "concat (if ?e = [] then [] else [?e]) = concat [?e]" by simp
      ultimately show ?thesis by metis
    next
      case (Inr w')
      then have bufs: "buf_select w' = buf_select w" "buf_kill w' = buf_kill w"
        using loop_body_continue by blast+
      from Cons.IH [of w'] obtain blocks where
        b: "executed (fst (main_loop w' cs)) = concat blocks"
          "\<forall>b \<in> set blocks. b = [buf_select w] \<or> b = [buf_select w, buf_kill w]"
        using bufs by auto
      from running Inr have "executed (fst (main_loop w (c # cs))) = ?e @ concat blocks"
        by (simp add: main_loop_step executed_append b(1) del: main_loop.simps)
      then have "executed (fst (main_loop w (c # cs))) =
          concat ((if ?e = [] then [] else [?e]) @ blocks)" by simp
      moreover have "\<forall>b \<in> set ((if ?e = [] then [] else [?e]) @ blocks).
          b = [buf_select w] \<or> b = [buf_select w, buf_kill w]"
        using e b(2) by auto
      ultimately show ?thesis by blast
    qed
  qed
qed

subsection \<open>The text of the two statements\<close>

text \<open>
  Both statements end in the same text: one source relation and one condition with three
  conjuncts, on \<^verbatim>\<open>pid\<close>, on \<^verbatim>\<open>state\<close> and on \<^verbatim>\<open>state_change\<close>. Which sessions the
  server returns for that text is the server's evaluation of SQL, outside the worker.
\<close>

lemma statements_share_condition:
  "build_buf_select t =
     ''SELECT pid, usename, datname, application_name, client_hostname '' @
     ''FROM pg_stat_activity WHERE pid <> pg_backend_pid() AND state = 'idle' '' @
     ''AND state_change < current_timestamp - INTERVAL '' @ [CHR 0x27] @ show_int t @
     [CHR 0x27] @ '' SECOND'' \<and>
   build_buf_kill t =
     ''SELECT pg_terminate_backend(pid) '' @
     ''FROM pg_stat_activity WHERE pid <> pg_backend_pid() AND state = 'idle' '' @
     ''AND state_change < current_timestamp - INTERVAL '' @ [CHR 0x27] @ show_int t @
     [CHR 0x27] @ '' SECOND''"
  by (simp add: build_buf_select_def build_buf_kill_def)

subsection \<open>Unfolding the samples\<close>

lemmas sample_defs = example_startup_def example_row_def null_pid_row_def timer_wake_def
  reload_wake_def sigterm_wake_def no_rows_wake_def null_pid_wake_def select_failed_wake_def
  kill_failed_wake_def

lemmas run_defs = pg_timeout_main_def start_worker_def loop_body_def run_queries_def
  deliver_def reload_def SPI_OK_SELECT_def finish_transaction_def log_row_def Let_def

section \<open>The claims\<close>

subsection \<open>C1: the statements after a reload\<close>

text \<open>
  C1 says that after a configuration reload the statements of the next iteration are built
  from the reloaded \<^verbatim>\<open>idle_session_timeout\<close>. The worker fills both buffers once, before the
  loop. In the run below the worker starts with 60 and is woken by SIGHUP with 120 in the
  configuration: it reloads, executes the two statements built from 60, and then logs that
  sessions idle since 120 seconds were terminated.
\<close>

theorem C1_stale_statements_after_reload:
  "executed (fst (pg_timeout_main example_startup [reload_wake])) =
     [build_buf_select 60, build_buf_kill 60] \<and>
   build_buf_select 60 \<noteq> build_buf_select 120 \<and>
   build_buf_kill 60 \<noteq> build_buf_kill 120 \<and>
   ProcessConfigFile \<in> set (fst (pg_timeout_main example_startup [reload_wake])) \<and>
   summary_lines (fst (pg_timeout_main example_startup [reload_wake])) =
     [Elog LOG ''%s: idle session(s) since %d seconds terminated''
        [AStr (Some ''pg_timeout_worker''), AInt 120]]"
  by (simp add: sample_defs run_defs summary_lines_def LOG_MESSAGE_def bgw_name_def
      build_buf_select_def build_buf_kill_def show_int_def show_nat.simps digit_char_def
      split: prod.splits)

subsection \<open>C2: SIGTERM during the wait\<close>




subsection \<open>C3 and C4: null fields of a logged row\<close>

text \<open>
  C3 says that each of user, database, application name and client hostname that is null in
  the row reaches the log line as the placeholder \<open>NULL\<close>. For the sample row, whose
  application name is null and whose client hostname is not, the worker passes the null
  pointer itself as the application argument of \<^verbatim>\<open>elog\<close> and the placeholder as the
  hostname argument.
\<close>

theorem C3_null_application_name_is_passed_on:
  "application_name example_row = None \<and>
   log_row example_row =
     Elog LOG ''%s: idle session PID=%d user=%s database=%s application=%s hostname=%s''
       [AStr (Some ''pg_timeout_worker''), AInt 4242, AStr (Some ''alice''), AStr (Some ''app''),
        AStr None, AStr (Some ''NULL'')]"
  by (simp add: log_row_def example_row_def bgw_name_def null_value_def LOG_MESSAGE_def)

text \<open>
  C4: for every processed row (its pid is not null) whose application name is null, the test
  on the application name assigns the placeholder to the client hostname variable. The
  application argument of the log line stays the null pointer, and the hostname argument is
  the placeholder whatever the row's client hostname was.
\<close>

theorem C4_null_application_name_sets_hostname:
  assumes "pid r = Some p" and "application_name r = None"
  shows "log_row r =
     Elog LOG LOG_MESSAGE
       [AStr (Some bgw_name), AInt p,
        AStr (if usename r = None then Some null_value else usename r),
        AStr (if datname r = None then Some null_value else datname r),
        AStr None, AStr (Some null_value)]"
  using assms by (simp add: log_row_def Let_def)

theorem C4_null_application_name_sets_hostname_witness:
  "pid example_row = Some 4242 \<and> application_name example_row = None \<and>
   client_hostname example_row = Some ''client.example'' \<and>
   log_row example_row =
     Elog LOG LOG_MESSAGE
       [AStr (Some bgw_name), AInt 4242, AStr (Some ''alice''), AStr (Some ''app''),
        AStr None, AStr (Some ''NULL'')]"
  using C4_null_application_name_sets_hostname [of example_row 4242]
  by (simp add: example_row_def null_value_def)

subsection \<open>C6: a failed statement\<close>

text \<open>
  C6: in an iteration of a running worker (postmaster alive), if \<^verbatim>\<open>SPI_execute\<close> of the select
  statement returns anything but \<^verbatim>\<open>SPI_OK_SELECT\<close>, the run ends there, aborted: the last
  thing the worker does is the FATAL log line with the code, the select statement is the
  only statement executed, and nothing is committed. If the select succeeds with rows and the
  terminate statement returns anything but \<^verbatim>\<open>SPI_OK_SELECT\<close>, the run ends the same way
  after that one execution of the terminate statement. Nothing the host would deliver
  afterwards changes this.
\<close>

theorem C6_failed_statement_aborts:
  assumes "\<not> got_sigterm w" and "\<not> postmaster_death c"
  shows "(spi_ret (select_result c) \<noteq> SPI_OK_SELECT \<longrightarrow>
            snd (main_loop w (c # cs)) = Aborted \<and>
            executed (fst (main_loop w (c # cs))) = [buf_select w] \<and>
            last (fst (main_loop w (c # cs))) =
              Elog FATAL ''cannot select from pg_stat_activity: error code %d''
                [AInt (spi_ret (select_result c))] \<and>
            CommitTransactionCommand \<notin> set (fst (main_loop w (c # cs)))) \<and>
         (spi_ret (select_result c) = SPI_OK_SELECT \<and> spi_rows (select_result c) \<noteq> [] \<and>
          spi_ret (kill_result c) \<noteq> SPI_OK_SELECT \<longrightarrow>
            snd (main_loop w (c # cs)) = Aborted \<and>
            executed (fst (main_loop w (c # cs))) = [buf_select w, buf_kill w] \<and>
            last (fst (main_loop w (c # cs))) =
              Elog FATAL ''cannot select pg_terminate_backend: error code %d''
                [AInt (spi_ret (kill_result c))] \<and>
            CommitTransactionCommand \<notin> set (fst (main_loop w (c # cs))))"
proof (intro conjI impI)
  assume f: "spi_ret (select_result c) \<noteq> SPI_OK_SELECT"
  have ml: "main_loop w (c # cs) =
     ([WaitLatch (pg_timeout_naptime w * 1000), ResetLatch] @
      (if got_sighup w \<or> sighup_in_wait c then [ProcessConfigFile] else []) @
      [StartTransactionCommand, SPI_connect, PushActiveSnapshot,
       ReportActivity (Some (buf_select w)), SPI_execute (buf_select w),
       Elog FATAL ''cannot select from pg_stat_activity: error code %d''
         [AInt (spi_ret (select_result c))]], Aborted)"
    using assms f
    by (simp add: main_loop_step loop_body_alive run_queries_select_failed del: main_loop.simps)
  show "snd (main_loop w (c # cs)) = Aborted" unfolding ml by simp
  show "executed (fst (main_loop w (c # cs))) = [buf_select w]" unfolding ml by simp
  show "last (fst (main_loop w (c # cs))) =
          Elog FATAL ''cannot select from pg_stat_activity: error code %d''
            [AInt (spi_ret (select_result c))]" unfolding ml by simp
  show "CommitTransactionCommand \<notin> set (fst (main_loop w (c # cs)))" unfolding ml by simp
next
  assume "spi_ret (select_result c) = SPI_OK_SELECT \<and> spi_rows (select_result c) \<noteq> [] \<and>
          spi_ret (kill_result c) \<noteq> SPI_OK_SELECT"
  then have f: "spi_ret (select_result c) = SPI_OK_SELECT" "spi_rows (select_result c) \<noteq> []"
    "spi_ret (kill_result c) \<noteq> SPI_OK_SELECT" by simp_all
  have ml: "main_loop w (c # cs) =
     ([WaitLatch (pg_timeout_naptime w * 1000), ResetLatch] @
      (if got_sighup w \<or> sighup_in_wait c then [ProcessConfigFile] else []) @
      [StartTransactionCommand, SPI_connect, PushActiveSnapshot,
       ReportActivity (Some (buf_select w)), SPI_execute (buf_select w)] @
      process_rows (spi_rows (select_result c)) @
      [SPI_execute (buf_kill w),
       Elog FATAL ''cannot select pg_terminate_backend: error code %d''
         [AInt (spi_ret (kill_result c))]], Aborted)"
    using assms f
    by (simp add: main_loop_step loop_body_alive run_queries_kill_failed del: main_loop.simps)
  show "snd (main_loop w (c # cs)) = Aborted" unfolding ml by simp
  show "executed (fst (main_loop w (c # cs))) = [buf_select w, buf_kill w]"
    unfolding ml by (simp add: executed_append)
  show "last (fst (main_loop w (c # cs))) =
          Elog FATAL ''cannot select pg_terminate_backend: error code %d''
            [AInt (spi_ret (kill_result c))]" unfolding ml by simp
  show "CommitTransactionCommand \<notin> set (fst (main_loop w (c # cs)))" unfolding ml by simp
qed

theorem C6_failed_statement_aborts_witness:
  "\<not> got_sigterm (start_worker example_startup) \<and>
   \<not> postmaster_death select_failed_wake \<and> \<not> postmaster_death kill_failed_wake \<and>
   spi_ret (select_result select_failed_wake) \<noteq> SPI_OK_SELECT \<and>
   snd (main_loop (start_worker example_startup) [select_failed_wake, timer_wake]) = Aborted \<and>
   executed (fst (main_loop (start_worker example_startup) [select_failed_wake, timer_wake])) =
     [build_buf_select 60] \<and>
   spi_ret (select_result kill_failed_wake) = SPI_OK_SELECT \<and>
   spi_rows (select_result kill_failed_wake) \<noteq> [] \<and>
   spi_ret (kill_result kill_failed_wake) \<noteq> SPI_OK_SELECT \<and>
   snd (main_loop (start_worker example_startup) [kill_failed_wake, timer_wake]) = Aborted \<and>
   executed (fst (main_loop (start_worker example_startup) [kill_failed_wake, timer_wake])) =
     [build_buf_select 60, build_buf_kill 60]"
  using C6_failed_statement_aborts
      [of "start_worker example_startup" select_failed_wake "[timer_wake]"]
    C6_failed_statement_aborts
      [of "start_worker example_startup" kill_failed_wake "[timer_wake]"]
  by (simp add: sample_defs start_worker_def SPI_OK_SELECT_def)

subsection \<open>C7: a row with a null pid\<close>

text \<open>
  C7: a row whose pid is null produces exactly one WARNING line, at its place between the
  lines of the rows before it and of the rows after it, and no LOG line of its own; the
  rows after it are processed as usual. The iteration goes on: with both statements
  succeeding it executes the terminate statement, logs the summary, commits, and the
  worker continues with the next iteration.
\<close>

theorem C7_null_pid_row_is_warned_and_skipped:
  assumes "pid r = None"
  shows "process_rows (xs @ r # ys) =
           process_rows xs @ [Elog WARNING ''%s: pid is NULL'' [AStr (Some bgw_name)]] @
           process_rows ys \<and>
         length (filter (\<lambda>e. elog_level e = Some WARNING) (process_rows (xs @ r # ys))) =
           Suc (length (filter (\<lambda>x. pid x = None) (xs @ ys))) \<and>
         (spi_ret (select_result c) = SPI_OK_SELECT \<and>
          spi_rows (select_result c) = xs @ r # ys \<and>
          spi_ret (kill_result c) = SPI_OK_SELECT \<longrightarrow>
            run_queries w c =
              ([StartTransactionCommand, SPI_connect, PushActiveSnapshot,
                ReportActivity (Some (buf_select w)), SPI_execute (buf_select w)] @
               process_rows xs @ [Elog WARNING ''%s: pid is NULL'' [AStr (Some bgw_name)]] @
               process_rows ys @
               [SPI_execute (buf_kill w),
                Elog LOG ''%s: idle session(s) since %d seconds terminated''
                  [AStr (Some bgw_name), AInt (pg_timeout_idle_session_timeout w)]] @
               finish_transaction,
               Inr (deliver (sigterm_in_body c) (sighup_in_body c) w)))"
proof (intro conjI impI)
  show split: "process_rows (xs @ r # ys) =
      process_rows xs @ [Elog WARNING ''%s: pid is NULL'' [AStr (Some bgw_name)]] @
      process_rows ys"
    using assms by (simp add: process_rows_append log_row_null_pid)
  show "length (filter (\<lambda>e. elog_level e = Some WARNING) (process_rows (xs @ r # ys))) =
      Suc (length (filter (\<lambda>x. pid x = None) (xs @ ys)))"
    using assms by (simp add: warnings_process_rows)
  assume "spi_ret (select_result c) = SPI_OK_SELECT \<and>
          spi_rows (select_result c) = xs @ r # ys \<and>
          spi_ret (kill_result c) = SPI_OK_SELECT"
  then show "run_queries w c =
      ([StartTransactionCommand, SPI_connect, PushActiveSnapshot,
        ReportActivity (Some (buf_select w)), SPI_execute (buf_select w)] @
       process_rows xs @ [Elog WARNING ''%s: pid is NULL'' [AStr (Some bgw_name)]] @
       process_rows ys @
       [SPI_execute (buf_kill w),
        Elog LOG ''%s: idle session(s) since %d seconds terminated''
          [AStr (Some bgw_name), AInt (pg_timeout_idle_session_timeout w)]] @
       finish_transaction,
       Inr (deliver (sigterm_in_body c) (sighup_in_body c) w))"
    using split by (simp add: run_queries_killed)
qed

theorem C7_null_pid_row_is_warned_and_skipped_witness:
  "pid null_pid_row = None \<and>
   spi_ret (select_result null_pid_wake) = SPI_OK_SELECT \<and>
   spi_rows (select_result null_pid_wake) = [example_row] @ null_pid_row # [example_row] \<and>
   spi_ret (kill_result null_pid_wake) = SPI_OK_SELECT \<and>
   process_rows ([example_row] @ null_pid_row # [example_row]) =
     [log_row example_row, Elog WARNING ''%s: pid is NULL'' [AStr (Some bgw_name)],
      log_row example_row] \<and>
   elog_level (log_row example_row) = Some LOG \<and>
   run_queries (start_worker example_startup) null_pid_wake =
     ([StartTransactionCommand, SPI_connect, PushActiveSnapshot,
       ReportActivity (Some (build_buf_select 60)), SPI_execute (build_buf_select 60),
       log_row example_row, Elog WARNING ''%s: pid is NULL'' [AStr (Some bgw_name)],
       log_row example_row, SPI_execute (build_buf_kill 60),
       Elog LOG ''%s: idle session(s) since %d seconds terminated''
         [AStr (Some bgw_name), AInt 60],
       SPI_finish, PopActiveSnapshot, CommitTransactionCommand, ReportStat,
       ReportActivity None],
      Inr (start_worker example_startup))"
  using C7_null_pid_row_is_warned_and_skipped
    [of null_pid_row "[example_row]" "[example_row]" null_pid_wake
        "start_worker example_startup"]
  by (simp add: sample_defs start_worker_def SPI_OK_SELECT_def finish_transaction_def
      deliver_def log_row_def)

subsection \<open>C8: the terminate statement runs only when rows were returned\<close>

text \<open>
  C8: in an iteration whose select statement succeeds (postmaster alive), the statements
  executed are the select statement alone when it returned no row, and the select statement
  followed by the terminate statement when it returned at least one row. With no row, no
  summary line is logged.
\<close>

theorem C8_terminate_only_when_rows:
  assumes "\<not> postmaster_death c" and "spi_ret (select_result c) = SPI_OK_SELECT"
  shows "executed (fst (loop_body w c)) =
           (if spi_rows (select_result c) = [] then [buf_select w]
            else [buf_select w, buf_kill w]) \<and>
         (spi_rows (select_result c) = [] \<longrightarrow> summary_lines (fst (loop_body w c)) = [])"
proof
  show "executed (fst (loop_body w c)) =
      (if spi_rows (select_result c) = [] then [buf_select w] else [buf_select w, buf_kill w])"
    using assms by (simp add: executed_loop_body)
  show "spi_rows (select_result c) = [] \<longrightarrow> summary_lines (fst (loop_body w c)) = []"
    using assms
    by (simp add: loop_body_alive run_queries_no_rows finish_transaction_def summary_lines_def)
qed

theorem C8_terminate_only_when_rows_witness:
  "\<not> postmaster_death no_rows_wake \<and> spi_ret (select_result no_rows_wake) = SPI_OK_SELECT \<and>
   spi_rows (select_result no_rows_wake) = [] \<and>
   executed (fst (loop_body (start_worker example_startup) no_rows_wake)) =
     [build_buf_select 60] \<and>
   summary_lines (fst (loop_body (start_worker example_startup) no_rows_wake)) = [] \<and>
   \<not> postmaster_death timer_wake \<and> spi_ret (select_result timer_wake) = SPI_OK_SELECT \<and>
   spi_rows (select_result timer_wake) \<noteq> [] \<and>
   executed (fst (loop_body (start_worker example_startup) timer_wake)) =
     [build_buf_select 60, build_buf_kill 60]"
  using C8_terminate_only_when_rows [of no_rows_wake "start_worker example_startup"]
    C8_terminate_only_when_rows [of timer_wake "start_worker example_startup"]
  by (simp add: sample_defs start_worker_def SPI_OK_SELECT_def)

subsection \<open>C9: one snapshot of the timeout for both statements\<close>

text \<open>
  C9: in every run, whatever the host delivers, the statements executed fall into the
  iterations of the loop. Each iteration executes the select statement, alone or followed
  by the terminate statement, and both texts end in one and the same idle window: the
  same relation, the same three conditions and the same interval, which is the timeout the
  worker started with, in seconds. The two statements of an iteration differ in their
  select list only.
\<close>

theorem C9_one_snapshot_for_both_statements:
  "\<exists>blocks window.
     window =
       ''FROM pg_stat_activity WHERE pid <> pg_backend_pid() AND state = 'idle' '' @
       ''AND state_change < current_timestamp - INTERVAL '' @ [CHR 0x27] @
       show_int (init_idle_session_timeout s) @ [CHR 0x27] @ '' SECOND'' \<and>
     executed (fst (pg_timeout_main s cs)) = concat blocks \<and>
     (\<forall>b \<in> set blocks.
        b = [''SELECT pid, usename, datname, application_name, client_hostname '' @ window] \<or>
        b = [''SELECT pid, usename, datname, application_name, client_hostname '' @ window,
             ''SELECT pg_terminate_backend(pid) '' @ window])"
proof -
  have "executed (fst (pg_timeout_main s cs)) = executed (fst (main_loop (start_worker s) cs))"
    by (simp add: pg_timeout_main_unfold)
  moreover have "buf_select (start_worker s) =
      ''SELECT pid, usename, datname, application_name, client_hostname '' @
      ''FROM pg_stat_activity WHERE pid <> pg_backend_pid() AND state = 'idle' '' @
      ''AND state_change < current_timestamp - INTERVAL '' @ [CHR 0x27] @
      show_int (init_idle_session_timeout s) @ [CHR 0x27] @ '' SECOND''"
    by (simp add: start_worker_def build_buf_select_def)
  moreover have "buf_kill (start_worker s) =
      ''SELECT pg_terminate_backend(pid) '' @
      ''FROM pg_stat_activity WHERE pid <> pg_backend_pid() AND state = 'idle' '' @
      ''AND state_change < current_timestamp - INTERVAL '' @ [CHR 0x27] @
      show_int (init_idle_session_timeout s) @ [CHR 0x27] @ '' SECOND''"
    by (simp add: start_worker_def build_buf_kill_def)
  ultimately show ?thesis using main_loop_blocks [of "start_worker s" cs] by simp
qed

theorem C9_one_snapshot_for_both_statements_witness:
  "init_idle_session_timeout example_startup = 60 \<and>
   executed (fst (pg_timeout_main example_startup [reload_wake, no_rows_wake])) =
     concat
       [[''SELECT pid, usename, datname, application_name, client_hostname '' @
         ''FROM pg_stat_activity WHERE pid <> pg_backend_pid() AND state = 'idle' '' @
         ''AND state_change < current_timestamp - INTERVAL '60' SECOND'',
         ''SELECT pg_terminate_backend(pid) '' @
         ''FROM pg_stat_activity WHERE pid <> pg_backend_pid() AND state = 'idle' '' @
         ''AND state_change < current_timestamp - INTERVAL '60' SECOND''],
        [''SELECT pid, usename, datname, application_name, client_hostname '' @
         ''FROM pg_stat_activity WHERE pid <> pg_backend_pid() AND state = 'idle' '' @
         ''AND state_change < current_timestamp - INTERVAL '60' SECOND'']]"
  using C9_one_snapshot_for_both_statements [of example_startup "[reload_wake, no_rows_wake]"]
  by (simp add: sample_defs run_defs build_buf_select_def build_buf_kill_def show_int_def
      show_nat.simps digit_char_def split: prod.splits)

end
